theory Spec2Isabelle
  imports Complex_Main "HOL-Library.Word" "HOL-Library.Log_Nat"
begin

unbundle bit_operations_syntax

section \<open>Go values used by the pressure package\<close>

subsection \<open>Bytes and byte slices\<close>

type_synonym byte = "8 word"

text \<open>
  \<open>binary.BigEndian.Uint32(b)\<close> of the Go standard library: it first reads \<open>b[3]\<close>
  (a bounds check that panics on a slice shorter than four bytes) and then returns
  \<open>uint32(b[3]) | uint32(b[2])<<8 | uint32(b[1])<<16 | uint32(b[0])<<24\<close>.
  A panic is the value \<open>None\<close>.
\<close>

definition bigEndianUint32 :: "byte list \<Rightarrow> 32 word option" where
  "bigEndianUint32 b =
     (if length b < 4 then None
      else Some (ucast (b ! 3) OR push_bit 8 (ucast (b ! 2))
                 OR push_bit 16 (ucast (b ! 1)) OR push_bit 24 (ucast (b ! 0))))"

text \<open>The conversion \<open>int32(u)\<close> of a \<open>uint32\<close>: the same bits read as two's complement.\<close>

definition int32 :: "32 word \<Rightarrow> int" where
  "int32 u = sint u"

subsection \<open>IEEE-754 binary64 values (\<open>float64\<close>)\<close>

text \<open>
  A \<open>float64\<close> is modelled by the value it denotes: a NaN (payloads are not told apart),
  an infinity with its sign (\<open>True\<close> is negative), or a finite number given by its sign and
  its magnitude, a non-negative rational. Both zeros exist (\<open>Fin False 0\<close> and
  \<open>Fin True 0\<close>). Every arithmetic operation computes the exact rational result and rounds
  it to the nearest binary64 value, ties to even, as the hardware does.
\<close>

datatype f64 = NaN | Inf bool | Fin bool rat

definition pow2 :: "int \<Rightarrow> rat" where
  "pow2 e = (if 0 \<le> e then 2 ^ nat e else 1 / 2 ^ nat (- e))"

text \<open>\<open>ilog2 m\<close> is the integer part of the binary logarithm of a positive rational.\<close>

definition ilog2 :: "rat \<Rightarrow> int" where
  "ilog2 m = (if 1 \<le> m then bitlen \<lfloor>m\<rfloor> - 1 else - bitlen (\<lceil>1 / m\<rceil> - 1))"

definition round_half_even :: "rat \<Rightarrow> int" where
  "round_half_even r =
     (let f = \<lfloor>r\<rfloor>; d = r - of_int f
      in if d < 1 / 2 then f else if 1 / 2 < d then f + 1
         else if even f then f else f + 1)"

text \<open>
  Rounding a magnitude to binary64: 53 significant bits for normal numbers (binary
  exponent \<open>e\<close> from -1022 to 1023), the fixed quantum \<open>2^-1074\<close> below \<open>2^-1022\<close>,
  and overflow to infinity when the rounded significand no longer fits under the
  largest exponent.
\<close>

definition round_to_f64 :: "bool \<Rightarrow> rat \<Rightarrow> f64" where
  "round_to_f64 s m =
     (if m = 0 then Fin s 0
      else let e = max (ilog2 m) (- 1022);
               q = pow2 (e - 52);
               n = round_half_even (m / q)
           in if 1023 < e \<or> (e = 1023 \<and> 2 ^ 53 \<le> n) then Inf s
              else Fin s (of_int n * q))"

text \<open>A numeric constant of the source, or an integer converted by \<open>float64(n)\<close>.\<close>

definition f64_of_rat :: "rat \<Rightarrow> f64" where
  "f64_of_rat r = round_to_f64 (r < 0) \<bar>r\<bar>"

definition f64_of_int :: "int \<Rightarrow> f64" where
  "f64_of_int i = f64_of_rat (of_int i)"

fun valof :: "f64 \<Rightarrow> rat" where
  "valof (Fin s m) = (if s then - m else m)"
| "valof _ = 0"

fun f64_neg :: "f64 \<Rightarrow> f64" where
  "f64_neg NaN = NaN"
| "f64_neg (Inf s) = Inf (\<not> s)"
| "f64_neg (Fin s m) = Fin (\<not> s) m"

fun f64_add :: "f64 \<Rightarrow> f64 \<Rightarrow> f64" where
  "f64_add NaN _ = NaN"
| "f64_add _ NaN = NaN"
| "f64_add (Inf s) (Inf t) = (if s = t then Inf s else NaN)"
| "f64_add (Inf s) (Fin _ _) = Inf s"
| "f64_add (Fin _ _) (Inf t) = Inf t"
| "f64_add (Fin s m) (Fin t n) =
     (let r = valof (Fin s m) + valof (Fin t n)
      in if r = 0 then Fin (s \<and> t) 0 else round_to_f64 (r < 0) \<bar>r\<bar>)"

definition f64_sub :: "f64 \<Rightarrow> f64 \<Rightarrow> f64" where
  "f64_sub a b = f64_add a (f64_neg b)"

fun f64_mul :: "f64 \<Rightarrow> f64 \<Rightarrow> f64" where
  "f64_mul NaN _ = NaN"
| "f64_mul _ NaN = NaN"
| "f64_mul (Inf s) (Inf t) = Inf (s \<noteq> t)"
| "f64_mul (Inf s) (Fin t n) = (if n = 0 then NaN else Inf (s \<noteq> t))"
| "f64_mul (Fin s m) (Inf t) = (if m = 0 then NaN else Inf (s \<noteq> t))"
| "f64_mul (Fin s m) (Fin t n) = round_to_f64 (s \<noteq> t) (m * n)"

fun f64_div :: "f64 \<Rightarrow> f64 \<Rightarrow> f64" where
  "f64_div NaN _ = NaN"
| "f64_div _ NaN = NaN"
| "f64_div (Inf s) (Inf t) = NaN"
| "f64_div (Inf s) (Fin t n) = Inf (s \<noteq> t)"
| "f64_div (Fin s m) (Inf t) = Fin (s \<noteq> t) 0"
| "f64_div (Fin s m) (Fin t n) =
     (if n = 0 then (if m = 0 then NaN else Inf (s \<noteq> t))
      else round_to_f64 (s \<noteq> t) (m / n))"

text \<open>Comparisons: every comparison with a NaN is false, the two zeros are equal.\<close>

fun f64_lt :: "f64 \<Rightarrow> f64 \<Rightarrow> bool" where
  "f64_lt NaN _ = False"
| "f64_lt _ NaN = False"
| "f64_lt (Inf s) (Inf t) = (s \<and> \<not> t)"
| "f64_lt (Inf s) (Fin _ _) = s"
| "f64_lt (Fin _ _) (Inf t) = (\<not> t)"
| "f64_lt (Fin s m) (Fin t n) = (valof (Fin s m) < valof (Fin t n))"

fun f64_eq :: "f64 \<Rightarrow> f64 \<Rightarrow> bool" where
  "f64_eq NaN _ = False"
| "f64_eq _ NaN = False"
| "f64_eq (Inf s) (Inf t) = (s = t)"
| "f64_eq (Inf _) (Fin _ _) = False"
| "f64_eq (Fin _ _) (Inf _) = False"
| "f64_eq (Fin s m) (Fin t n) = (valof (Fin s m) = valof (Fin t n))"

definition f64_le :: "f64 \<Rightarrow> f64 \<Rightarrow> bool" where
  "f64_le a b = (f64_lt a b \<or> f64_eq a b)"

definition f64_gt :: "f64 \<Rightarrow> f64 \<Rightarrow> bool" where
  "f64_gt a b = f64_lt b a"

definition f64_ge :: "f64 \<Rightarrow> f64 \<Rightarrow> bool" where
  "f64_ge a b = f64_le b a"

definition f64_ne :: "f64 \<Rightarrow> f64 \<Rightarrow> bool" where
  "f64_ne a b = (\<not> f64_eq a b)"

text \<open>\<open>math.IsNaN(f)\<close> and \<open>math.IsInf(f, 0)\<close>.\<close>

fun IsNaN :: "f64 \<Rightarrow> bool" where
  "IsNaN NaN = True"
| "IsNaN _ = False"

fun IsInf :: "f64 \<Rightarrow> bool" where
  "IsInf (Inf _) = True"
| "IsInf _ = False"

subsection \<open>IEEE-754 binary32 values (\<open>float32\<close>)\<close>

text \<open>
  \<open>math.Float32frombits\<close> reinterprets the 32 bits; a \<open>float32\<close> is modelled by its bit
  pattern. The conversion \<open>float64(x)\<close> of a \<open>float32\<close> is exact: sign bit 31, biased
  exponent in bits 30 to 23, fraction in bits 22 to 0.
\<close>

datatype f32 = F32 (bits_of: "32 word")

definition Float32frombits :: "32 word \<Rightarrow> f32" where
  "Float32frombits b = F32 b"

definition f64_of_f32 :: "f32 \<Rightarrow> f64" where
  "f64_of_f32 x =
     (let b = bits_of x;
          s = bit b 31;
          e = unat (drop_bit 23 b AND 0xFF);
          f = unat (b AND 0x7FFFFF)
      in if e = 255 then (if f = 0 then Inf s else NaN)
         else if e = 0 then Fin s (of_nat f * pow2 (- 149))
         else Fin s (of_nat (2 ^ 23 + f) * pow2 (int e - 150)))"

section \<open>Frame decoding\<close>

text \<open>
  \<open>PressureMeter.parseDecimalFormat\<close> (pressure/device.go). The logger calls are output
  only and are left out; the three returns of the source are kept as three branches.
\<close>

definition parseDecimalFormat :: "byte list \<Rightarrow> f64 option" where
  "parseDecimalFormat data =
     (case bigEndianUint32 data of
        None \<Rightarrow> None
      | Some u \<Rightarrow>
          (let value = int32 u
           in if data ! 0 = 0xFF then Some (f64_div (f64_of_int value) (f64_of_rat 10))
              else if u AND 0x80000000 = 0x80000000
                   then Some (f64_div (f64_of_int value) (f64_of_rat 10))
              else Some (f64_div (f64_of_int value) (f64_of_rat 10))))"

text \<open>\<open>parseDecimalFormatStatic\<close> (pressure/scanner.go).\<close>

definition parseDecimalFormatStatic :: "byte list \<Rightarrow> f64 option" where
  "parseDecimalFormatStatic data =
     (case bigEndianUint32 data of
        None \<Rightarrow> None
      | Some u \<Rightarrow>
          (let value = int32 u
           in if data ! 0 = 0xFF \<or> u AND 0x80000000 = 0x80000000
              then Some (f64_div (f64_of_int value) (f64_of_rat 10))
              else Some (f64_div (f64_of_int value) (f64_of_rat 10))))"

text \<open>
  \<open>PressureMeter.parseFloatFormat\<close> (pressure/device.go): the four bytes are permuted
  as [2, 3, 0, 1], read as a big-endian \<open>uint32\<close>, reinterpreted as a \<open>float32\<close> and
  widened. Reading \<open>data[2]\<close> and \<open>data[3]\<close> panics on a slice shorter than four bytes.
\<close>

definition parseFloatFormat :: "byte list \<Rightarrow> f64 option" where
  "parseFloatFormat data =
     (if length data < 4 then None
      else let ieeeBytes = [data ! 2, data ! 3, data ! 0, data ! 1]
           in case bigEndianUint32 ieeeBytes of
                None \<Rightarrow> None
              | Some bits \<Rightarrow>
                  (let pressure = Float32frombits bits
                   in Some (f64_of_f32 pressure)))"

text \<open>
  \<open>parseFloatFormatStatic\<close> (pressure/scanner.go): the same decoding, followed by a check
  that returns the constant 0 for a NaN or an infinity.
\<close>

definition parseFloatFormatStatic :: "byte list \<Rightarrow> f64 option" where
  "parseFloatFormatStatic data =
     (if length data < 4 then None
      else let ieeeBytes = [data ! 2, data ! 3, data ! 0, data ! 1]
           in case bigEndianUint32 ieeeBytes of
                None \<Rightarrow> None
              | Some bits \<Rightarrow>
                  (let pressure = Float32frombits bits
                   in if IsNaN (f64_of_f32 pressure) \<or> IsInf (f64_of_f32 pressure)
                      then Some (f64_of_rat 0)
                      else Some (f64_of_f32 pressure)))"

subsection \<open>The decoders as the specification words them\<close>

text \<open>
  The big-endian two's-complement reading of four bytes, written with integer
  arithmetic: the unsigned value \<open>b0 * 2^24 + b1 * 2^16 + b2 * 2^8 + b3\<close>, less \<open>2^32\<close>
  when the sign bit is set.
\<close>

definition bigEndianInt32 :: "byte list \<Rightarrow> int" where
  "bigEndianInt32 b =
     (let n = uint (b ! 0) * 2 ^ 24 + uint (b ! 1) * 2 ^ 16 + uint (b ! 2) * 2 ^ 8 + uint (b ! 3)
      in if n < 2 ^ 31 then n else n - 2 ^ 32)"

text \<open>
  The word-swapped bit pattern, written with integer arithmetic: bytes 2 and 3 are the
  high word, bytes 0 and 1 the low word.
\<close>

definition swappedBits :: "byte list \<Rightarrow> 32 word" where
  "swappedBits b =
     word_of_int (uint (b ! 2) * 2 ^ 24 + uint (b ! 3) * 2 ^ 16 + uint (b ! 0) * 2 ^ 8 + uint (b ! 1))"

text \<open>A bit pattern denotes a NaN or an infinity exactly when its exponent field is all ones.\<close>

definition nonFinitePattern :: "32 word \<Rightarrow> bool" where
  "nonFinitePattern w = (drop_bit 23 w AND 0xFF = 0xFF)"

section \<open>The pressure meter (pressure/device.go)\<close>

subsection \<open>Data\<close>

text \<open>
  \<open>DataFormatType\<close> is a Go \<open>int\<close> with two named constants; any other integer is a
  possible value (the \<open>default\<close> branch of \<open>ReadPressure\<close> handles it), so the type is
  modelled by \<open>int\<close>.
\<close>

type_synonym DataFormatType = int

definition DecimalFormat :: DataFormatType where
  "DecimalFormat = 0"

definition FloatFormat :: DataFormatType where
  "FloatFormat = 1"

text \<open>
  The error text of a reading is built with \<open>fmt.Sprintf\<close>; the model keeps which of the
  three messages it is and the value formatted into it.
\<close>

datatype reading_error =
    NoError
  | ReadFailed string
  | WrongLength nat
  | UnknownFormat int

text \<open>\<open>PressureReading\<close>; the timestamp is left out.\<close>

record PressureReading =
  Pressure :: f64
  SlaveID :: byte
  RawData :: "byte list"
  Valid :: bool
  Error :: reading_error

text \<open>
  A buffered Go channel: the queued elements, oldest first, and the capacity given to
  \<open>make\<close>. The channel \<open>readings\<close> is never closed.
\<close>

record 'a chan =
  buf :: "'a list"
  cap :: nat

text \<open>
  The two ways in which a step of the program does not return: a panic, or a goroutine
  blocked for ever.
\<close>

datatype failure = Panic | Blocked

text \<open>
  \<open>PressureMeter\<close>. The Modbus client, the handler and the logger belong to the
  environment. The channel \<open>stopCh\<close> is unbuffered and nothing is ever sent on it: all
  that can be observed is whether it has been closed. \<open>polling\<close> says whether the
  goroutine started by \<open>Start\<close> is alive and waiting in its \<open>select\<close>. The fields
  \<open>slaveID\<close> and \<open>dataFormat\<close> carry a prefix, their names being local variables of
  the scanner.
\<close>

record PressureMeter =
  pm_slaveID :: byte
  pm_dataFormat :: DataFormatType
  readings :: "PressureReading chan"
  stopCh_closed :: bool
  running :: bool
  polling :: bool

text \<open>The result of \<open>client.ReadHoldingRegisters\<close>: an error or the bytes received.\<close>

datatype modbus_result = ModbusError string | ModbusOK "byte list"

subsection \<open>Configuration and construction\<close>

text \<open>
  \<open>Config\<close>; \<open>ReadInterval\<close> is a \<open>time.Duration\<close>, a signed count of nanoseconds. The
  logger is left out.
\<close>

record Config =
  Device :: string
  Cfg_SlaveID :: byte
  ReadInterval :: int
  Cfg_DataFormat :: DataFormatType


definition Second :: int where
  "Second = 1000000000"





subsection \<open>One read\<close>

text \<open>
  \<open>PressureMeter.ReadPressure\<close>, given the outcome of the Modbus transaction. A panic of a
  parser is \<open>None\<close>; it cannot happen, because the length has been checked.
\<close>

definition ReadPressure :: "PressureMeter \<Rightarrow> modbus_result \<Rightarrow> PressureReading option" where
  "ReadPressure pm res =
     (let reading = \<lparr>Pressure = Fin False 0, SlaveID = pm_slaveID pm, RawData = [],
                      Valid = False, Error = NoError\<rparr>
      in case res of
           ModbusError err \<Rightarrow> Some (reading\<lparr>Error := ReadFailed err\<rparr>)
         | ModbusOK results \<Rightarrow>
             if length results \<noteq> 4
             then Some (reading\<lparr>Error := WrongLength (length results)\<rparr>)
             else let reading = reading\<lparr>RawData := results\<rparr>
                  in if pm_dataFormat pm = DecimalFormat
                     then (case parseDecimalFormat results of
                             None \<Rightarrow> None
                           | Some p \<Rightarrow> Some (reading\<lparr>Pressure := p, Valid := True\<rparr>))
                     else if pm_dataFormat pm = FloatFormat
                     then (case parseFloatFormat results of
                             None \<Rightarrow> None
                           | Some p \<Rightarrow> Some (reading\<lparr>Pressure := p, Valid := True\<rparr>))
                     else Some (reading\<lparr>Error := UnknownFormat (pm_dataFormat pm)\<rparr>))"

subsection \<open>The reading queue\<close>

text \<open>
  A non-blocking send (\<open>select\<close> with a \<open>default\<close> branch): it succeeds when the buffer has
  room.
\<close>

definition try_send :: "'a chan \<Rightarrow> 'a \<Rightarrow> 'a chan option" where
  "try_send ch v =
     (if length (buf ch) < cap ch then Some (ch\<lparr>buf := buf ch @ [v]\<rparr>) else None)"

text \<open>A non-blocking receive: it takes the oldest element when there is one.\<close>

definition try_recv :: "'a chan \<Rightarrow> ('a \<times> 'a chan) option" where
  "try_recv ch =
     (case buf ch of [] \<Rightarrow> None | x # xs \<Rightarrow> Some (x, ch\<lparr>buf := xs\<rparr>))"

text \<open>
  A blocking send. No receiver is modelled, so on a full buffer the sender stays blocked.
\<close>

definition send :: "'a chan \<Rightarrow> 'a \<Rightarrow> failure + 'a chan" where
  "send ch v =
     (if length (buf ch) < cap ch then Inr (ch\<lparr>buf := buf ch @ [v]\<rparr>) else Inl Blocked)"

text \<open>
  The delivery step of the polling goroutine in \<open>Start\<close>: try to send; when the channel
  is full, take one element out if there is one, then send.
\<close>

definition deliver :: "'a chan \<Rightarrow> 'a \<Rightarrow> failure + 'a chan" where
  "deliver ch reading =
     (case try_send ch reading of
        Some ch' \<Rightarrow> Inr ch'
      | None \<Rightarrow>
          (let ch1 = (case try_recv ch of Some (_, ch') \<Rightarrow> ch' | None \<Rightarrow> ch)
           in send ch1 reading))"

fun deliver_all :: "'a chan \<Rightarrow> 'a list \<Rightarrow> failure + 'a chan" where
  "deliver_all ch [] = Inr ch"
| "deliver_all ch (r # rs) =
     (case deliver ch r of Inl e \<Rightarrow> Inl e | Inr ch' \<Rightarrow> deliver_all ch' rs)"

subsection \<open>Start, Stop and the polling goroutine\<close>

text \<open>
  \<open>PressureMeter.Start\<close>. When the meter is not running it sets \<open>running\<close> and starts the
  goroutine, which creates its ticker (\<open>time.NewTicker\<close> panics on an interval that is
  not positive) and enters \<open>select\<close> on \<open>stopCh\<close> and the ticker. The first tick comes one
  interval later, so when \<open>stopCh\<close> is already closed the only ready case is the stop
  case and the goroutine returns at once.
\<close>

definition Start :: "PressureMeter \<Rightarrow> int \<Rightarrow> failure + PressureMeter" where
  "Start pm interval =
     (if running pm then Inr pm
      else if interval \<le> 0 then Inl Panic
      else Inr (pm\<lparr>running := True, polling := \<not> stopCh_closed pm\<rparr>))"

text \<open>
  \<open>PressureMeter.Stop\<close>. Closing a channel that is already closed panics. A goroutine
  waiting in \<open>select\<close> sees the closed channel and returns.
\<close>

definition Stop :: "PressureMeter \<Rightarrow> failure + PressureMeter" where
  "Stop pm =
     (if \<not> running pm then Inr pm
      else if stopCh_closed pm then Inl Panic
      else Inr (pm\<lparr>running := False, stopCh_closed := True, polling := False\<rparr>))"

text \<open>
  One tick of the ticker, given the outcome of the Modbus transaction that the tick would
  perform: a live goroutine reads once and delivers the reading; without a live goroutine
  nothing happens.
\<close>

definition Tick :: "PressureMeter \<Rightarrow> modbus_result \<Rightarrow> failure + PressureMeter" where
  "Tick pm res =
     (if polling pm
      then (case ReadPressure pm res of
              None \<Rightarrow> Inl Panic
            | Some reading \<Rightarrow>
                (case deliver (readings pm) reading of
                   Inl e \<Rightarrow> Inl e
                 | Inr ch \<Rightarrow> Inr (pm\<lparr>readings := ch\<rparr>)))
      else Inr pm)"

section \<open>Running statistics (pressure/types.go)\<close>

text \<open>
  \<open>Statistics\<close>; \<open>LastTime\<close> is left out. \<open>Count\<close> is a Go \<open>int\<close>; it is modelled by an
  unbounded integer, which differs from the source only after \<open>2^63 - 1\<close> updates.
  The fields \<open>Min\<close> and \<open>Max\<close> carry a suffix, the plain names being constants of HOL.
\<close>

record Statistics =
  Count :: int
  Min_val :: f64
  Max_val :: f64
  Mean :: f64
  StdDev :: f64

text \<open>The zero value \<open>Statistics{}\<close>, which \<open>Reset\<close> also restores.\<close>

definition Statistics_zero :: Statistics where
  "Statistics_zero =
     \<lparr>Count = 0, Min_val = Fin False 0, Max_val = Fin False 0,
      Mean = Fin False 0, StdDev = Fin False 0\<rparr>"

text \<open>
  \<open>Statistics.Update\<close>, statement by statement. Each operation is rounded on its own; a
  compiler that fuses the multiplication and the addition of the \<open>StdDev\<close> update rounds
  once instead, which gives the same result whenever the product is exact.
\<close>

definition Update :: "Statistics \<Rightarrow> f64 \<Rightarrow> Statistics" where
  "Update s value =
     (let s1 =
        (if Count s = 0
         then s\<lparr>Min_val := value, Max_val := value, Mean := value\<rparr>
         else
           (let sa = (if f64_lt value (Min_val s) then s\<lparr>Min_val := value\<rparr> else s);
                sb = (if f64_gt value (Max_val sa) then sa\<lparr>Max_val := value\<rparr> else sa);
                oldMean = Mean sb;
                sc = sb\<lparr>Mean := f64_add oldMean
                        (f64_div (f64_sub value oldMean) (f64_of_int (Count sb + 1)))\<rparr>
            in if Count sc > 0
               then sc\<lparr>StdDev := f64_add (StdDev sc)
                        (f64_mul (f64_sub value oldMean) (f64_sub value (Mean sc)))\<rparr>
               else sc));
          s2 = s1\<lparr>Count := Count s1 + 1\<rparr>
      in if Count s2 > 1
         then s2\<lparr>StdDev := f64_div (StdDev s2) (f64_of_int (Count s2 - 1))\<rparr>
         else s2)"

text \<open>Feeding a sequence of values, first to last.\<close>

definition feed :: "f64 list \<Rightarrow> Statistics" where
  "feed vs = foldl Update Statistics_zero vs"

text \<open>
  The exact sample variance of a list of rationals, \<open>sum((x - mean)^2) / (n - 1)\<close>: what
  a single-pass Welford method computes.
\<close>

definition sample_variance :: "rat list \<Rightarrow> rat" where
  "sample_variance xs =
     (let n = of_nat (length xs); mean = sum_list xs / n
      in sum_list (map (\<lambda>x. (x - mean) ^ 2) xs) / (n - 1))"

section \<open>The scanner (pressure/scanner.go)\<close>

subsection \<open>Conversion of a float to an integer\<close>

text \<open>
  \<open>int(f)\<close> truncates towards zero. When the truncated value does not fit into 64 bits,
  or \<open>f\<close> is a NaN, the Go specification leaves the result to the implementation. The
  repository builds for amd64 and arm64: the conversion instruction of amd64 then gives
  \<open>-2^63\<close>; that of arm64 saturates and gives 0 for a NaN.
\<close>

datatype goarch = amd64 | arm64

definition f64_to_int :: "goarch \<Rightarrow> f64 \<Rightarrow> int" where
  "f64_to_int a f =
     (case f of
        NaN \<Rightarrow> (case a of amd64 \<Rightarrow> - (2 ^ 63) | arm64 \<Rightarrow> 0)
      | Inf s \<Rightarrow> (case a of amd64 \<Rightarrow> - (2 ^ 63)
                          | arm64 \<Rightarrow> (if s then - (2 ^ 63) else 2 ^ 63 - 1))
      | Fin s m \<Rightarrow>
          (let t = (if s then - \<lfloor>m\<rfloor> else \<lfloor>m\<rfloor>)
           in if - (2 ^ 63) \<le> t \<and> t < 2 ^ 63 then t
              else (case a of amd64 \<Rightarrow> - (2 ^ 63)
                            | arm64 \<Rightarrow> (if s then - (2 ^ 63) else 2 ^ 63 - 1))))"

subsection \<open>Format detection\<close>

text \<open>
  \<open>Scanner.calculateDecimalConfidence\<close>. Reading \<open>data[0]\<close> panics on an empty slice.
\<close>

definition calculateDecimalConfidence :: "goarch \<Rightarrow> f64 \<Rightarrow> byte list \<Rightarrow> f64 option" where
  "calculateDecimalConfidence a value data =
     (let confidence = f64_of_rat 0;
          confidence =
            (if f64_ge value (f64_of_rat (- 10000)) \<and> f64_le value (f64_of_rat 10000)
             then f64_add confidence (f64_of_rat (5 / 10)) else confidence);
          confidence =
            (if f64_eq value
                  (f64_div (f64_of_int (f64_to_int a (f64_mul value (f64_of_rat 10))))
                           (f64_of_rat 10))
             then f64_add confidence (f64_of_rat (3 / 10)) else confidence)
      in if data = [] then None
         else Some (if data ! 0 \<noteq> 0xFF \<and> (data ! 0 < 0x80 \<or> data ! 0 = 0xFF)
                    then f64_add confidence (f64_of_rat (2 / 10)) else confidence))"

text \<open>\<open>Scanner.calculateFloatConfidence\<close>.\<close>

definition calculateFloatConfidence :: "goarch \<Rightarrow> f64 \<Rightarrow> byte list \<Rightarrow> f64 option" where
  "calculateFloatConfidence a value data =
     (let confidence = f64_of_rat 0;
          confidence =
            (if f64_ge value (f64_of_rat (- 10000)) \<and> f64_le value (f64_of_rat 10000)
                \<and> \<not> IsNaN value \<and> \<not> IsInf value
             then f64_add confidence (f64_of_rat (4 / 10)) else confidence);
          confidence =
            (if f64_ne value
                  (f64_div (f64_of_int (f64_to_int a (f64_mul value (f64_of_rat 10))))
                           (f64_of_rat 10))
             then f64_add confidence (f64_of_rat (3 / 10)) else confidence)
      in if length data < 4 then None
         else let ieeeBytes = [data ! 2, data ! 3, data ! 0, data ! 1]
              in case bigEndianUint32 ieeeBytes of
                   None \<Rightarrow> None
                 | Some bits \<Rightarrow>
                     (let exponent = drop_bit 23 bits AND 0xFF
                      in Some (if exponent > 0 \<and> exponent < 255
                               then f64_add confidence (f64_of_rat (3 / 10))
                               else confidence)))"

text \<open>\<open>Scanner.detectDataFormat\<close>: the format and its confidence.\<close>

definition detectDataFormat :: "goarch \<Rightarrow> byte list \<Rightarrow> (DataFormatType \<times> f64) option" where
  "detectDataFormat a data =
     (case parseDecimalFormatStatic data of
        None \<Rightarrow> None
      | Some decimalValue \<Rightarrow>
          (case parseFloatFormatStatic data of
             None \<Rightarrow> None
           | Some floatValue \<Rightarrow>
               (case calculateDecimalConfidence a decimalValue data of
                  None \<Rightarrow> None
                | Some decimalConfidence \<Rightarrow>
                    (case calculateFloatConfidence a floatValue data of
                       None \<Rightarrow> None
                     | Some floatConfidence \<Rightarrow>
                         if f64_gt decimalConfidence floatConfidence
                         then Some (DecimalFormat, decimalConfidence)
                         else Some (FloatFormat, floatConfidence)))))"

subsection \<open>Scan data\<close>

datatype scan_error = NoScanError | ConnectErr string | ReadErr string

text \<open>
  The entries of \<open>DeviceInfo.Properties\<close> that the scanner writes; the response time is
  left out, and the raw data are kept as bytes rather than as formatted text.
\<close>

datatype property = PInt int | PBool bool | PFloat f64 | PBytes "byte list"

text \<open>\<open>DeviceInfo\<close>; the scan time is left out.\<close>

record DeviceInfo =
  DI_Device :: string
  DI_SlaveID :: byte
  Responsive :: bool
  DataFormat :: DataFormatType
  LastReading :: "PressureReading option"
  Properties :: "(string \<times> property) list"
  DI_Error :: scan_error

record ScanConfig =
  SerialPorts :: "string list"
  SlaveIDs :: "byte list"
  BaudRates :: "int list"
  ScanTimeout :: int
  MaxDevices :: int
  AutoDetectFormat :: bool
  Parallel :: bool
  SkipUnresponsive :: bool

text \<open>\<open>ScanResult\<close>; the elapsed time is left out.\<close>

record ScanResult =
  Devices :: "DeviceInfo list"
  TotalTested :: int
  Successful :: int
  SR_Config :: ScanConfig

text \<open>
  What the scanner asks of its environment: the target architecture, the \<open>verbose\<close> flag
  of the \<open>Scanner\<close>, the list of serial ports of the host (\<open>serial.GetPortsList\<close>, \<open>None\<close>
  on an error), and the outcome of one probe of a port at a baud rate and a station
  number: the connection fails, the read fails, or bytes come back.
\<close>

datatype probe_result = ConnectError string | ReadError string | Results "byte list"

record env =
  arch :: goarch
  verbose :: bool
  GetPortsList :: "string list option"
  probe :: "string \<Rightarrow> int \<Rightarrow> byte \<Rightarrow> probe_result"

definition GetQuickScanConfig :: ScanConfig where
  "GetQuickScanConfig =
     \<lparr>SerialPorts = [],
      SlaveIDs = [0x16, 0x01, 0x02, 0x03, 0x04, 0x05],
      BaudRates = [9600],
      ScanTimeout = 1 * Second,
      MaxDevices = 10,
      AutoDetectFormat = True,
      Parallel = False,
      SkipUnresponsive = True\<rparr>"

subsection \<open>Serial port detection\<close>

text \<open>
  \<open>strings.ToLower\<close> and \<open>strings.Contains\<close> on byte strings; only the ASCII letters are
  mapped.
\<close>

definition to_lower_char :: "char \<Rightarrow> char" where
  "to_lower_char c =
     (let n = (of_char c :: nat) in if 65 \<le> n \<and> n \<le> 90 then char_of (n + 32) else c)"

definition ToLower :: "string \<Rightarrow> string" where
  "ToLower s = map to_lower_char s"

fun HasPrefix :: "string \<Rightarrow> string \<Rightarrow> bool" where
  "HasPrefix s [] = True"
| "HasPrefix [] (p # ps) = False"
| "HasPrefix (c # cs) (p # ps) = (c = p \<and> HasPrefix cs ps)"

fun Contains :: "string \<Rightarrow> string \<Rightarrow> bool" where
  "Contains [] substr = (substr = [])"
| "Contains (c # cs) substr = (HasPrefix (c # cs) substr \<or> Contains cs substr)"

text \<open>
  \<open>Scanner.isLikelyRS485Port\<close>: after the loop over the patterns, the loop over the
  exclusions returns false, and so does the end of the function.
\<close>

definition isLikelyRS485Port :: "string \<Rightarrow> bool" where
  "isLikelyRS485Port port =
     (let patterns = [''ttyUSB'', ''ttyACM'', ''ttyS'', ''COM'', ''cu.usbserial'',
                      ''cu.wchusbserial'', ''cu.SLAB_USBtoUART'', ''cu.usbmodem''];
          portLower = ToLower port
      in if list_ex (\<lambda>pattern. Contains portLower (ToLower pattern)) patterns then True
         else if list_ex (\<lambda>pattern. Contains portLower pattern)
                   [''bluetooth'', ''irda'', ''printer'']
         then False
         else False)"

datatype scan_failure = PortDetectionFailed | ScanPanic

text \<open>\<open>Scanner.detectSerialPorts\<close>.\<close>

definition detectSerialPorts :: "env \<Rightarrow> string list option" where
  "detectSerialPorts e =
     (case GetPortsList e of
        None \<Rightarrow> None
      | Some ports \<Rightarrow>
          (let validPorts = filter isLikelyRS485Port ports
           in if length validPorts = 0 then Some ports else Some validPorts))"

subsection \<open>Probing and scanning\<close>

text \<open>
  \<open>Scanner.testDevice\<close>. A panic of the decoders is \<open>None\<close>; it cannot happen, because
  the length has been checked. The \<open>switch\<close> on the format has no default branch.
\<close>

definition testDevice :: "env \<Rightarrow> string \<Rightarrow> int \<Rightarrow> byte \<Rightarrow> ScanConfig \<Rightarrow> DeviceInfo option" where
  "testDevice e port baudRate slaveID config =
     (let device = \<lparr>DI_Device = port, DI_SlaveID = slaveID, Responsive = False,
                     DataFormat = 0, LastReading = None, Properties = [],
                     DI_Error = NoScanError\<rparr>
      in case probe e port baudRate slaveID of
           ConnectError err \<Rightarrow> Some (device\<lparr>DI_Error := ConnectErr err\<rparr>)
         | ReadError err \<Rightarrow> Some (device\<lparr>DI_Error := ReadErr err\<rparr>)
         | Results results \<Rightarrow>
             if length results = 4
             then
               (let device = device\<lparr>Responsive := True,
                               Properties := Properties device @ [(''baud_rate'', PInt baudRate)]\<rparr>
                in if AutoDetectFormat config
                   then
                     (case detectDataFormat (arch e) results of
                        None \<Rightarrow> None
                      | Some (dataFormat, confidence) \<Rightarrow>
                          (let device = device\<lparr>DataFormat := dataFormat,
                                 Properties := Properties device @
                                   [(''auto_detected_format'', PBool True),
                                    (''format_confidence'', PFloat confidence)]\<rparr>;
                               reading = \<lparr>Pressure = Fin False 0, SlaveID = slaveID,
                                          RawData = results, Valid = True, Error = NoError\<rparr>
                           in case (if dataFormat = DecimalFormat
                                    then parseDecimalFormatStatic results
                                    else if dataFormat = FloatFormat
                                    then parseFloatFormatStatic results
                                    else Some (Pressure reading)) of
                                None \<Rightarrow> None
                              | Some p \<Rightarrow>
                                  (let reading = reading\<lparr>Pressure := p\<rparr>
                                   in Some (device\<lparr>LastReading := Some reading,
                                        Properties := Properties device @
                                          [(''pressure_pa'', PFloat p),
                                           (''raw_data'', PBytes results)]\<rparr>))))
                   else Some (device\<lparr>Properties := Properties device @
                                [(''raw_data'', PBytes results)]\<rparr>))
             else Some device)"

text \<open>
  \<open>Scanner.scanPortWithBaudRate\<close>: the loop over the station numbers, with the devices
  collected so far. Every probed device is appended, responsive or not, and the loop
  breaks once their number reaches \<open>MaxDevices\<close>. For a responsive device a verbose
  scanner logs \<open>device.LastReading.Pressure\<close>, which panics on the nil pointer when no
  reading has been stored.
\<close>

fun scanSlaveIDs ::
  "env \<Rightarrow> string \<Rightarrow> int \<Rightarrow> ScanConfig \<Rightarrow> byte list \<Rightarrow> DeviceInfo list \<Rightarrow> DeviceInfo list option"
where
  "scanSlaveIDs e port baudRate config [] devices = Some devices"
| "scanSlaveIDs e port baudRate config (slaveID # rest) devices =
     (case testDevice e port baudRate slaveID config of
        None \<Rightarrow> None
      | Some device \<Rightarrow>
          (let devices = devices @ [device]
           in if Responsive device \<and> verbose e \<and> LastReading device = None then None
              else if int (length devices) \<ge> MaxDevices config then Some devices
              else scanSlaveIDs e port baudRate config rest devices))"

definition scanPortWithBaudRate ::
  "env \<Rightarrow> string \<Rightarrow> int \<Rightarrow> ScanConfig \<Rightarrow> DeviceInfo list option"
where
  "scanPortWithBaudRate e port baudRate config =
     scanSlaveIDs e port baudRate config (SlaveIDs config) []"

text \<open>\<open>Scanner.hasResponsiveDevice\<close> and \<open>Scanner.getResponsiveDevices\<close>.\<close>

definition hasResponsiveDevice :: "DeviceInfo list \<Rightarrow> bool" where
  "hasResponsiveDevice devices = list_ex Responsive devices"

definition getResponsiveDevices :: "DeviceInfo list \<Rightarrow> DeviceInfo list" where
  "getResponsiveDevices devices = filter Responsive devices"

text \<open>\<open>Scanner.scanPort\<close>: the loop over the baud rates.\<close>

fun scanBaudRates ::
  "env \<Rightarrow> string \<Rightarrow> ScanConfig \<Rightarrow> int list \<Rightarrow> DeviceInfo list \<Rightarrow> DeviceInfo list option"
where
  "scanBaudRates e port config [] devices = Some devices"
| "scanBaudRates e port config (baudRate # rest) devices =
     (case scanPortWithBaudRate e port baudRate config of
        None \<Rightarrow> None
      | Some portDevices \<Rightarrow>
          if length portDevices > 0
          then (let devices = devices @ portDevices
                in if hasResponsiveDevice portDevices then Some devices
                   else scanBaudRates e port config rest devices)
          else scanBaudRates e port config rest devices)"

definition scanPort :: "env \<Rightarrow> string \<Rightarrow> ScanConfig \<Rightarrow> DeviceInfo list option" where
  "scanPort e port config = scanBaudRates e port config (BaudRates config) []"

text \<open>The inner loop of \<open>ScanDevices\<close> over the devices of one port.\<close>

fun countDevices :: "ScanConfig \<Rightarrow> DeviceInfo list \<Rightarrow> ScanResult \<Rightarrow> ScanResult" where
  "countDevices config [] result = result"
| "countDevices config (device # rest) result =
     (let result = (if \<not> SkipUnresponsive config \<or> Responsive device
                    then result\<lparr>Devices := Devices result @ [device]\<rparr> else result);
          result = result\<lparr>TotalTested := TotalTested result + 1\<rparr>;
          result = (if Responsive device
                    then result\<lparr>Successful := Successful result + 1\<rparr> else result)
      in countDevices config rest result)"

text \<open>The outer loop of \<open>ScanDevices\<close> over the serial ports.\<close>

fun scanSerialPorts :: "env \<Rightarrow> ScanConfig \<Rightarrow> string list \<Rightarrow> ScanResult \<Rightarrow> ScanResult option" where
  "scanSerialPorts e config [] result = Some result"
| "scanSerialPorts e config (port # rest) result =
     (case scanPort e port config of
        None \<Rightarrow> None
      | Some portDevices \<Rightarrow>
          (let result = countDevices config portDevices result
           in if int (length (Devices result)) \<ge> MaxDevices config then Some result
              else scanSerialPorts e config rest result))"

text \<open>\<open>Scanner.ScanDevices\<close>.\<close>

definition ScanDevices :: "env \<Rightarrow> ScanConfig \<Rightarrow> scan_failure + ScanResult" where
  "ScanDevices e config =
     (let result = \<lparr>Devices = [], TotalTested = 0, Successful = 0, SR_Config = config\<rparr>
      in case (if length (SerialPorts config) = 0 then detectSerialPorts e
               else Some (SerialPorts config)) of
           None \<Rightarrow> Inl PortDetectionFailed
         | Some serialPorts \<Rightarrow>
             (case scanSerialPorts e config serialPorts result of
                None \<Rightarrow> Inl ScanPanic
              | Some result \<Rightarrow> Inr result))"

datatype auto_error = ScanDevicesFailed scan_failure | NoResponsiveDevice

text \<open>\<open>Scanner.AutoConfigure\<close>.\<close>

definition AutoConfigure :: "env \<Rightarrow> auto_error + Config" where
  "AutoConfigure e =
     (let scanConfig = GetQuickScanConfig\<lparr>MaxDevices := 1\<rparr>
      in case ScanDevices e scanConfig of
           Inl err \<Rightarrow> Inl (ScanDevicesFailed err)
         | Inr result \<Rightarrow>
             (let responsiveDevices = getResponsiveDevices (Devices result)
              in case responsiveDevices of
                   [] \<Rightarrow> Inl NoResponsiveDevice
                 | device # _ \<Rightarrow>
                     Inr \<lparr>Device = DI_Device device,
                          Cfg_SlaveID = DI_SlaveID device,
                          ReadInterval = Second,
                          Cfg_DataFormat = DataFormat device\<rparr>))"

section \<open>Example inputs\<close>

text \<open>A meter as \<open>NewPressureMeter\<close> builds it for station 22, with a given data format.\<close>

definition example_meter :: "DataFormatType \<Rightarrow> PressureMeter" where
  "example_meter fmt =
     \<lparr>pm_slaveID = 0x16, pm_dataFormat = fmt, readings = \<lparr>buf = [], cap = 100\<rparr>,
      stopCh_closed = False, running = False, polling = False\<rparr>"


text \<open>
  Two hosts with the one serial port /dev/ttyUSB0: on the first no station answers; on
  the second station 1 answers every read with 00 00 04 E5 and no other station answers.
\<close>

definition silent_env :: env where
  "silent_env =
     \<lparr>arch = amd64, verbose = True, GetPortsList = Some [''/dev/ttyUSB0''],
      probe = (\<lambda>port baudRate slaveID. ReadError ''timeout'')\<rparr>"

definition only_station_1_env :: env where
  "only_station_1_env =
     \<lparr>arch = amd64, verbose = True, GetPortsList = Some [''/dev/ttyUSB0''],
      probe = (\<lambda>port baudRate slaveID.
                 if slaveID = 0x01 then Results [0x00, 0x00, 0x04, 0xE5]
                 else ReadError ''timeout'')\<rparr>"

section \<open>Properties of the frame decoders\<close>

lemma byte_bit_lt: "bit (x :: byte) n \<Longrightarrow> n < 8"
  using bit_imp_le_length [of x n] by simp

lemma be_word_sum:
  fixes a b c d :: byte
  shows "(ucast d OR push_bit 8 (ucast c) OR push_bit 16 (ucast b) OR push_bit 24 (ucast a) :: 32 word)
       = word_of_int (uint a * 2 ^ 24 + uint b * 2 ^ 16 + uint c * 2 ^ 8 + uint d)"
proof -
  have 1: "(push_bit 16 (ucast b) OR push_bit 24 (ucast a) :: 32 word)
           = push_bit 16 (ucast b) + push_bit 24 (ucast a)"
    by (rule disjunctive_add [symmetric]) (auto simp: bit_simps dest!: byte_bit_lt)
  have 2: "(push_bit 8 (ucast c) OR (push_bit 16 (ucast b) OR push_bit 24 (ucast a)) :: 32 word)
           = push_bit 8 (ucast c) + (push_bit 16 (ucast b) OR push_bit 24 (ucast a))"
    by (rule disjunctive_add [symmetric]) (auto simp: bit_simps dest!: byte_bit_lt)
  have 3: "(ucast d OR (push_bit 8 (ucast c) OR (push_bit 16 (ucast b) OR push_bit 24 (ucast a))) :: 32 word)
           = ucast d + (push_bit 8 (ucast c) OR (push_bit 16 (ucast b) OR push_bit 24 (ucast a)))"
    by (rule disjunctive_add [symmetric]) (auto simp: bit_simps dest!: byte_bit_lt)
  have "(ucast d OR push_bit 8 (ucast c) OR push_bit 16 (ucast b) OR push_bit 24 (ucast a) :: 32 word)
        = ucast d + (push_bit 8 (ucast c) + (push_bit 16 (ucast b) + push_bit 24 (ucast a)))"
    by (subst 3, subst 2, subst 1) (rule refl)
  also have "\<dots> = word_of_int (uint a * 2 ^ 24 + uint b * 2 ^ 16 + uint c * 2 ^ 8 + uint d)"
    by (simp add: push_bit_eq_mult)
  finally show ?thesis .
qed

lemma sint_be:
  fixes a b c d :: byte
  defines "n \<equiv> uint a * 2 ^ 24 + uint b * 2 ^ 16 + uint c * 2 ^ 8 + uint d"
  shows "sint (word_of_int n :: 32 word) = (if n < 2 ^ 31 then n else n - 2 ^ 32)"
proof -
  have "uint a < 256" "uint b < 256" "uint c < 256" "uint d < 256"
    using uint_lt2p [of a] uint_lt2p [of b] uint_lt2p [of c] uint_lt2p [of d] by simp_all
  moreover have "0 \<le> uint a" "0 \<le> uint b" "0 \<le> uint c" "0 \<le> uint d" by simp_all
  ultimately have n: "0 \<le> n" "n < 2 ^ 32" unfolding n_def by simp_all
  show ?thesis
  proof (cases "n < 2 ^ 31")
    case True
    with n have "(n + 2 ^ 31) mod 2 ^ 32 = n + 2 ^ 31" by simp
    with True show ?thesis by (simp add: int_word_sint)
  next
    case False
    with n have "(n + 2 ^ 31) mod 2 ^ 32 = n + 2 ^ 31 - 2 ^ 32"
      by (simp add: mod_pos_geq)
    with False show ?thesis by (simp add: int_word_sint)
  qed
qed

lemma bigEndianUint32_len4:
  "4 \<le> length b \<Longrightarrow>
   bigEndianUint32 b =
     Some (word_of_int (uint (b ! 0) * 2 ^ 24 + uint (b ! 1) * 2 ^ 16 + uint (b ! 2) * 2 ^ 8 + uint (b ! 3)))"
  by (simp add: bigEndianUint32_def be_word_sum)

lemma int32_bigEndian:
  assumes len: "4 \<le> length b" and u: "bigEndianUint32 b = Some u"
  shows "int32 u = bigEndianInt32 b"
proof -
  let ?n = "uint (b ! 0) * 2 ^ 24 + uint (b ! 1) * 2 ^ 16 + uint (b ! 2) * 2 ^ 8 + uint (b ! 3)"
  from bigEndianUint32_len4 [OF len] u have "u = word_of_int ?n"
    by (metis option.inject)
  then have "int32 u = sint (word_of_int ?n :: 32 word)"
    by (simp only: int32_def)
  also have "\<dots> = (if ?n < 2 ^ 31 then ?n else ?n - 2 ^ 32)"
    by (rule sint_be)
  also have "\<dots> = bigEndianInt32 b"
    by (simp only: bigEndianInt32_def Let_def)
  finally show ?thesis .
qed

lemma swapped_bits:
  "4 \<le> length data \<Longrightarrow>
   bigEndianUint32 [data ! 2, data ! 3, data ! 0, data ! 1] = Some (swappedBits data)"
  by (simp add: bigEndianUint32_len4 swappedBits_def)

lemma nonfinite_iff:
  "(IsNaN (f64_of_f32 (Float32frombits w)) \<or> IsInf (f64_of_f32 (Float32frombits w)))
   = nonFinitePattern w"
proof -
  have "(unat (drop_bit 23 w AND 0xFF) = 255) = (drop_bit 23 w AND 0xFF = 0xFF)"
    by (simp add: word_unat_eq_iff)
  then show ?thesis
    by (auto simp: f64_of_f32_def Float32frombits_def nonFinitePattern_def Let_def)
qed

lemma f64_zero: "f64_of_rat 0 = Fin False 0"
  by (simp add: f64_of_rat_def round_to_f64_def)

text \<open>
  Claim C1. For every 4-byte payload, both Decimal decoders return the big-endian
  two's-complement reading of the payload, converted to \<open>float64\<close> and divided by ten:
  the branch for a first byte of 0xFF, the branch for a set sign bit and the last
  branch all compute this one value.
\<close>

theorem parseDecimal_bigEndianInt32:
  assumes "length data = 4"
  shows "parseDecimalFormat data
           = Some (f64_div (f64_of_int (bigEndianInt32 data)) (f64_of_rat 10))
       \<and> parseDecimalFormatStatic data
           = Some (f64_div (f64_of_int (bigEndianInt32 data)) (f64_of_rat 10))"
proof -
  from assms have len: "4 \<le> length data" by simp
  then obtain u where u: "bigEndianUint32 data = Some u"
    by (simp add: bigEndianUint32_len4)
  with len have "int32 u = bigEndianInt32 data" by (rule int32_bigEndian)
  with u show ?thesis
    by (simp add: parseDecimalFormat_def parseDecimalFormatStatic_def Let_def)
qed

theorem parseDecimal_bigEndianInt32_witness:
  "length [0xFF, 0xFF, 0xFF, 0x9C :: byte] = 4
   \<and> parseDecimalFormat [0xFF, 0xFF, 0xFF, 0x9C] = Some (f64_div (f64_of_int (- 100)) (f64_of_rat 10))
   \<and> parseDecimalFormatStatic [0xFF, 0xFF, 0xFF, 0x9C] = Some (f64_div (f64_of_int (- 100)) (f64_of_rat 10))"
  using parseDecimal_bigEndianInt32 [of "[0xFF, 0xFF, 0xFF, 0x9C]"]
  by (simp add: bigEndianInt32_def)

lemma swappedBits_example: "swappedBits [0x00, 0x00, 0x3F, 0x9D] = 0x3F9D0000"
  by (simp add: swappedBits_def)

lemma widen_example: "f64_of_f32 (Float32frombits 0x3F9D0000) = Fin False (157 / 128)"
  by (simp add: f64_of_f32_def Float32frombits_def pow2_def Let_def)

lemma finite_example: "\<not> nonFinitePattern 0x3F9D0000"
  by (simp add: nonFinitePattern_def)

text \<open>
  Claim C2, as stated, fails: on the payload 00 00 7F 80, whose word-swapped pattern
  7F800000 is plus infinity, the scanner's decoder returns 0 and not the infinity.
\<close>

theorem parseFloatFormatStatic_infinity_counterexample:
  "parseFloatFormatStatic [0x00, 0x00, 0x7F, 0x80] = Some (Fin False 0)
   \<and> f64_of_f32 (Float32frombits (swappedBits [0x00, 0x00, 0x7F, 0x80])) = Inf False
   \<and> parseFloatFormatStatic [0x00, 0x00, 0x7F, 0x80]
       \<noteq> Some (f64_of_f32 (Float32frombits (swappedBits [0x00, 0x00, 0x7F, 0x80])))"
  by (simp add: parseFloatFormatStatic_def bigEndianUint32_def swappedBits_def f64_of_f32_def
      Float32frombits_def f64_zero Let_def)

text \<open>
  Claim C2, amended. For every 4-byte payload the meter's \<open>parseFloatFormat\<close> returns the
  widened \<open>float32\<close> whose bits are the word-swapped payload, NaN and infinities
  included; the scanner's \<open>parseFloatFormatStatic\<close> returns the same value when the
  pattern is finite, and 0 when it denotes a NaN or an infinity.
\<close>

theorem parseFloat_swapped_widened:
  assumes "length data = 4"
  shows "parseFloatFormat data = Some (f64_of_f32 (Float32frombits (swappedBits data)))
       \<and> parseFloatFormatStatic data
           = Some (if nonFinitePattern (swappedBits data) then Fin False 0
                   else f64_of_f32 (Float32frombits (swappedBits data)))"
proof -
  from assms have len: "4 \<le> length data" by simp
  have sw: "bigEndianUint32 [data ! 2, data ! 3, data ! 0, data ! 1] = Some (swappedBits data)"
    using len by (rule swapped_bits)
  have 1: "parseFloatFormat data = Some (f64_of_f32 (Float32frombits (swappedBits data)))"
    using assms sw by (simp add: parseFloatFormat_def Let_def)
  have 2: "parseFloatFormatStatic data
           = Some (if nonFinitePattern (swappedBits data) then Fin False 0
                   else f64_of_f32 (Float32frombits (swappedBits data)))"
    using assms sw nonfinite_iff [of "swappedBits data"]
    by (simp add: parseFloatFormatStatic_def Let_def f64_zero)
  from 1 2 show ?thesis by (rule conjI)
qed

theorem parseFloat_swapped_widened_witness:
  "length [0x00, 0x00, 0x3F, 0x9D :: byte] = 4
   \<and> parseFloatFormat [0x00, 0x00, 0x3F, 0x9D] = Some (Fin False (157 / 128))
   \<and> parseFloatFormatStatic [0x00, 0x00, 0x3F, 0x9D] = Some (Fin False (157 / 128))"
  using parseFloat_swapped_widened [of "[0x00, 0x00, 0x3F, 0x9D]"]
  by (simp add: swappedBits_example widen_example finite_example)

text \<open>
  Claim C3 does not hold of the code. The specification requires a word-swapped pattern
  that denotes a NaN or an infinity to be reported as invalid. \<open>ReadPressure\<close> under
  \<open>FloatFormat\<close> does the opposite on every such 4-byte payload: \<open>parseFloatFormat\<close> has
  no test for a non-finite value, so the reading is returned with \<open>Valid = true\<close>, no
  error, and the non-finite value as its pressure. (The scanner's decoder
  \<open>parseFloatFormatStatic\<close> does test \<open>math.IsNaN\<close> and \<open>math.IsInf\<close> on the same value.)
\<close>

theorem ReadPressure_nonfinite_reported_valid:
  assumes "pm_dataFormat pm = FloatFormat" and "length data = 4"
    and "nonFinitePattern (swappedBits data)"
  shows "ReadPressure pm (ModbusOK data)
           = Some \<lparr>Pressure = f64_of_f32 (Float32frombits (swappedBits data)),
                   SlaveID = pm_slaveID pm, RawData = data, Valid = True, Error = NoError\<rparr>
       \<and> (IsNaN (f64_of_f32 (Float32frombits (swappedBits data)))
            \<or> IsInf (f64_of_f32 (Float32frombits (swappedBits data))))"
proof -
  from assms(2) have len: "4 \<le> length data" by simp
  have sw: "bigEndianUint32 [data ! 2, data ! 3, data ! 0, data ! 1] = Some (swappedBits data)"
    using len by (rule swapped_bits)
  have pf: "parseFloatFormat data = Some (f64_of_f32 (Float32frombits (swappedBits data)))"
    using assms(2) sw by (simp add: parseFloatFormat_def Let_def)
  have "ReadPressure pm (ModbusOK data)
           = Some \<lparr>Pressure = f64_of_f32 (Float32frombits (swappedBits data)),
                   SlaveID = pm_slaveID pm, RawData = data, Valid = True, Error = NoError\<rparr>"
    using assms(1,2) pf
    by (simp add: ReadPressure_def Let_def DecimalFormat_def FloatFormat_def)
  then show ?thesis using assms(3) nonfinite_iff [of "swappedBits data"] by simp
qed

theorem ReadPressure_nonfinite_reported_valid_witness:
  "pm_dataFormat (example_meter FloatFormat) = FloatFormat
   \<and> length [0x00, 0x00, 0x7F, 0xC0 :: byte] = 4
   \<and> nonFinitePattern (swappedBits [0x00, 0x00, 0x7F, 0xC0])
   \<and> ReadPressure (example_meter FloatFormat) (ModbusOK [0x00, 0x00, 0x7F, 0xC0])
       = Some \<lparr>Pressure = NaN, SlaveID = 0x16, RawData = [0x00, 0x00, 0x7F, 0xC0],
               Valid = True, Error = NoError\<rparr>"
  using ReadPressure_nonfinite_reported_valid
          [of "example_meter FloatFormat" "[0x00, 0x00, 0x7F, 0xC0]"]
  by (simp add: example_meter_def swappedBits_def nonFinitePattern_def f64_of_f32_def
      Float32frombits_def)

section \<open>Properties of the reading queue\<close>

lemma deliver_room:
  "length (buf ch) < cap ch \<Longrightarrow> deliver ch r = Inr (ch\<lparr>buf := buf ch @ [r]\<rparr>)"
  by (simp add: deliver_def try_send_def)

lemma deliver_full:
  assumes "0 < cap ch" and "length (buf ch) = cap ch"
  shows "deliver ch r = Inr (ch\<lparr>buf := tl (buf ch) @ [r]\<rparr>)"
proof -
  from assms obtain x xs where b: "buf ch = x # xs"
    by (cases "buf ch") auto
  with assms show ?thesis
    by (simp add: deliver_def try_send_def try_recv_def send_def)
qed

text \<open>
  Claim C6. On a queue of positive capacity that holds at most its capacity, the
  delivery step of the polling loop returns (it neither blocks nor panics); the new queue
  is the old one with the reading appended at the end, after the single oldest element
  has been removed if and only if the queue was full; and the new queue again holds at
  most its capacity. With capacity 2, delivering three readings to the empty queue leaves
  the second and the third, in this order. The step is taken without a receiver running
  at the same time; a receiver can only take elements out.
\<close>

theorem deliver_overwrites_oldest:
  fixes ch :: "'a chan" and r r1 r2 r3 :: 'a
  assumes "0 < cap ch" and "length (buf ch) \<le> cap ch"
  shows "deliver ch r
           = Inr (ch\<lparr>buf := (if length (buf ch) < cap ch then buf ch else tl (buf ch)) @ [r]\<rparr>)
       \<and> length ((if length (buf ch) < cap ch then buf ch else tl (buf ch)) @ [r]) \<le> cap ch
       \<and> deliver_all \<lparr>buf = [], cap = 2\<rparr> [r1, r2, r3] = Inr \<lparr>buf = [r2, r3], cap = 2\<rparr>"
proof (intro conjI)
  show "deliver ch r
          = Inr (ch\<lparr>buf := (if length (buf ch) < cap ch then buf ch else tl (buf ch)) @ [r]\<rparr>)"
  proof (cases "length (buf ch) < cap ch")
    case True
    then show ?thesis by (simp add: deliver_room)
  next
    case False
    with assms have "length (buf ch) = cap ch" by simp
    with assms(1) False show ?thesis by (simp add: deliver_full)
  qed
next
  show "length ((if length (buf ch) < cap ch then buf ch else tl (buf ch)) @ [r]) \<le> cap ch"
    using assms by auto
next
  show "deliver_all \<lparr>buf = [], cap = 2\<rparr> [r1, r2, r3] = Inr \<lparr>buf = [r2, r3], cap = 2\<rparr>"
    by (simp add: deliver_def try_send_def try_recv_def send_def)
qed

theorem deliver_overwrites_oldest_witness:
  "0 < cap \<lparr>buf = [1, 2 :: nat], cap = 2\<rparr>
   \<and> length (buf \<lparr>buf = [1, 2 :: nat], cap = 2\<rparr>) \<le> cap \<lparr>buf = [1, 2 :: nat], cap = 2\<rparr>
   \<and> deliver \<lparr>buf = [1, 2 :: nat], cap = 2\<rparr> 3 = Inr \<lparr>buf = [2, 3], cap = 2\<rparr>
   \<and> deliver_all \<lparr>buf = [], cap = 2\<rparr> [1, 2, 3 :: nat] = Inr \<lparr>buf = [2, 3], cap = 2\<rparr>"
  using deliver_overwrites_oldest [of "\<lparr>buf = [1, 2 :: nat], cap = 2\<rparr>" 3 1 2 3]
  by simp

section \<open>Properties of Start and Stop\<close>

lemma ReadPressure_total: "\<exists>reading. ReadPressure pm res = Some reading"
proof (cases res)
  case (ModbusError err)
  then show ?thesis by (simp add: ReadPressure_def)
next
  case (ModbusOK results)
  show ?thesis
  proof (cases "length results = 4")
    case False
    with ModbusOK show ?thesis by (simp add: ReadPressure_def)
  next
    case True
    then have len: "4 \<le> length results" by simp
    have sw: "bigEndianUint32 [results ! 2, results ! 3, results ! 0, results ! 1]
                = Some (swappedBits results)"
      using len by (rule swapped_bits)
    have pf: "\<exists>p. parseFloatFormat results = Some p"
      using True sw by (simp add: parseFloatFormat_def Let_def)
    have pd: "\<exists>p. parseDecimalFormat results = Some p"
      using len by (simp add: parseDecimalFormat_def bigEndianUint32_len4 Let_def)
    from pf pd ModbusOK True show ?thesis
      by (auto simp: ReadPressure_def Let_def)
  qed
qed

text \<open>
  The first \<open>Start\<close> of a meter behaves as the specification says: the meter is running,
  and a tick performs one read and delivers its reading to the queue.
\<close>

lemma Tick_after_first_Start:
  assumes "\<not> running pm" and "\<not> stopCh_closed pm" and "0 < i"
    and "length (buf (readings pm)) < cap (readings pm)"
  shows "\<exists>pm1 reading. Start pm i = Inr pm1 \<and> running pm1
           \<and> ReadPressure pm res = Some reading
           \<and> Tick pm1 res
               = Inr (pm1\<lparr>readings := (readings pm)\<lparr>buf := buf (readings pm) @ [reading]\<rparr>\<rparr>)"
proof -
  obtain reading where r: "ReadPressure pm res = Some reading"
    using ReadPressure_total by blast
  have rp: "ReadPressure (pm\<lparr>running := True, polling := True\<rparr>) res = ReadPressure pm res"
    by (simp add: ReadPressure_def Let_def split: modbus_result.split)
  show ?thesis
    using assms r rp by (simp add: Start_def Tick_def deliver_room)
qed

text \<open>
  Claim C8 does not hold of the code. \<open>stopCh\<close> is made once, in \<open>NewPressureMeter\<close>, and
  \<open>Stop\<close> closes it; \<open>Start\<close> does not make a new one. So on a meter that has been started
  and stopped, a second \<open>Start\<close> sets \<open>running\<close>, but the goroutine it starts finds
  \<open>stopCh\<close> closed and returns: a tick then performs no read and delivers nothing, and
  the next \<open>Stop\<close> closes the closed channel, which panics.
\<close>

theorem restart_does_not_poll:
  assumes "\<not> running pm" and "\<not> stopCh_closed pm" and "0 < i" and "0 < j"
  shows "Start pm i = Inr (pm\<lparr>running := True, polling := True\<rparr>)
       \<and> Stop (pm\<lparr>running := True, polling := True\<rparr>)
           = Inr (pm\<lparr>running := False, polling := False, stopCh_closed := True\<rparr>)
       \<and> Start (pm\<lparr>running := False, polling := False, stopCh_closed := True\<rparr>) j
           = Inr (pm\<lparr>running := True, polling := False, stopCh_closed := True\<rparr>)
       \<and> Tick (pm\<lparr>running := True, polling := False, stopCh_closed := True\<rparr>) res
           = Inr (pm\<lparr>running := True, polling := False, stopCh_closed := True\<rparr>)
       \<and> Stop (pm\<lparr>running := True, polling := False, stopCh_closed := True\<rparr>) = Inl Panic"
  using assms by (simp add: Start_def Stop_def Tick_def)

theorem restart_does_not_poll_witness:
  "\<not> running (example_meter DecimalFormat) \<and> \<not> stopCh_closed (example_meter DecimalFormat)
   \<and> 0 < Second
   \<and> Start (example_meter DecimalFormat) Second
        = Inr ((example_meter DecimalFormat)\<lparr>running := True, polling := True\<rparr>)
   \<and> Stop ((example_meter DecimalFormat)\<lparr>running := True, polling := True\<rparr>)
        = Inr ((example_meter DecimalFormat)\<lparr>stopCh_closed := True\<rparr>)
   \<and> Start ((example_meter DecimalFormat)\<lparr>stopCh_closed := True\<rparr>) Second
        = Inr ((example_meter DecimalFormat)\<lparr>running := True, stopCh_closed := True\<rparr>)
   \<and> Tick ((example_meter DecimalFormat)\<lparr>running := True, stopCh_closed := True\<rparr>)
          (ModbusOK [0x00, 0x00, 0x04, 0xE5])
        = Inr ((example_meter DecimalFormat)\<lparr>running := True, stopCh_closed := True\<rparr>)
   \<and> readings ((example_meter DecimalFormat)\<lparr>running := True, stopCh_closed := True\<rparr>)
        = \<lparr>buf = [], cap = 100\<rparr>
   \<and> Stop ((example_meter DecimalFormat)\<lparr>running := True, stopCh_closed := True\<rparr>) = Inl Panic"
  using restart_does_not_poll [of "example_meter DecimalFormat" Second Second
          "ModbusOK [0x00, 0x00, 0x04, 0xE5]"]
  by (simp add: example_meter_def Second_def)

section \<open>Properties of the construction of a meter\<close>




section \<open>Properties of the format classifier\<close>

text \<open>A confidence is a sum of finite constants, so it is never a NaN.\<close>

lemma round_to_f64_not_NaN: "round_to_f64 s m \<noteq> NaN"
  by (simp add: round_to_f64_def Let_def)

lemma f64_of_rat_not_NaN: "f64_of_rat r \<noteq> NaN"
  by (simp add: f64_of_rat_def round_to_f64_not_NaN)

















lemma first_byte_test:
  "((x :: byte) \<noteq> 0xFF \<and> (x < 0x80 \<or> x = 0xFF)) = (x < 0x80)"
  by auto

lemma minus_ten_decimal_value:
  "parseDecimalFormatStatic [0xFF, 0xFF, 0xFF, 0x9C] = Some (Fin True 10)"
proof -
  have "f64_div (f64_of_int (- 100)) (f64_of_rat 10) = Fin True 10" by code_simp
  then show ?thesis
    by (simp add: parseDecimalFormatStatic_def bigEndianUint32_def int32_def Let_def)
qed

lemma minus_ten_confidence:
  "calculateDecimalConfidence amd64 (Fin True 10) [0xFF, 0xFF, 0xFF, 0x9C]
     = Some (Fin False (3602879701896397 / 4503599627370496))"
  by code_simp

text \<open>
  Claim C5 does not hold of the code. The test of \<open>calculateDecimalConfidence\<close> is
  \<open>data[0] != 0xFF && (data[0] < 0x80 || data[0] == 0xFF)\<close>: its first conjunct makes the
  disjunct \<open>data[0] == 0xFF\<close> dead, so the term 0.2 is added exactly when the first byte
  is below 0x80, and never for a first byte of 0xFF. For every decoded value there is a
  base confidence \<open>c\<close> such that every non-empty payload gets \<open>c + 0.2\<close> when its first
  byte is below 0x80 and \<open>c\<close> otherwise. The payload FF FF FF 9C, which decodes to
  -10.0 Pa, gets 0.8 and not 1.0.
\<close>

theorem decimal_bonus_below_0x80_only:
  "\<exists>c. \<forall>data. data \<noteq> [] \<longrightarrow>
         calculateDecimalConfidence a v data
           = Some (if data ! 0 < 0x80 then f64_add c (f64_of_rat (2 / 10)) else c)"
  unfolding calculateDecimalConfidence_def Let_def first_byte_test
  by (intro exI allI impI) simp

theorem decimal_bonus_below_0x80_only_witness:
  "[0xFF, 0xFF, 0xFF, 0x9C :: byte] \<noteq> [] \<and> [0x00, 0xFF, 0xFF, 0x9C :: byte] \<noteq> []
   \<and> parseDecimalFormatStatic [0xFF, 0xFF, 0xFF, 0x9C] = Some (Fin True 10)
   \<and> calculateDecimalConfidence amd64 (Fin True 10) [0xFF, 0xFF, 0xFF, 0x9C]
       = Some (Fin False (3602879701896397 / 4503599627370496))
   \<and> calculateDecimalConfidence amd64 (Fin True 10) [0x00, 0xFF, 0xFF, 0x9C]
       = Some (f64_add (Fin False (3602879701896397 / 4503599627370496)) (f64_of_rat (2 / 10)))"
proof -
  from decimal_bonus_below_0x80_only [of amd64 "Fin True 10"]
  obtain c where c: "\<And>data. data \<noteq> [] \<Longrightarrow>
      calculateDecimalConfidence amd64 (Fin True 10) data
        = Some (if data ! 0 < 0x80 then f64_add c (f64_of_rat (2 / 10)) else c)"
    by blast
  from c [of "[0xFF, 0xFF, 0xFF, 0x9C]"] minus_ten_confidence
  have "c = Fin False (3602879701896397 / 4503599627370496)" by simp
  with c [of "[0x00, 0xFF, 0xFF, 0x9C]"] minus_ten_confidence minus_ten_decimal_value
  show ?thesis by simp
qed




section \<open>Properties of the running statistics\<close>

lemma feed_three:
  "feed [Fin False 10, Fin False 20, Fin False 30]
     = \<lparr>Count = 3, Min_val = Fin False 10, Max_val = Fin False 30, Mean = Fin False 20,
        StdDev = Fin False 100\<rparr>"
  by code_simp

lemma feed_four:
  "feed [Fin False 10, Fin False 20, Fin False 30, Fin False 40]
     = \<lparr>Count = 4, Min_val = Fin False 10, Max_val = Fin False 40, Mean = Fin False 25,
        StdDev = Fin False (4691249611844267 / 35184372088832)\<rparr>"
  by code_simp

lemma variance_four: "sample_variance [10, 20, 30, 40] = 500 / 3"
  by code_simp

text \<open>
  Claim C7 does not hold of the code. \<open>Update\<close> divides the field \<open>StdDev\<close> by
  \<open>Count - 1\<close> at the end of every call and adds the next product to the quotient, so
  from the fourth value on the field is no longer the sample variance. After
  10, 20, 30 the statistics are those of the example (count 3, minimum 10, maximum 30,
  mean 20, variance 100); after 10, 20, 30, 40 the field is (100 + 20 * 15) / 3, about
  133.33, while the sample variance is 500 / 3, about 166.67.
\<close>

theorem Update_variance_wrong_from_fourth_value:
  "feed [Fin False 10, Fin False 20, Fin False 30]
     = \<lparr>Count = 3, Min_val = Fin False 10, Max_val = Fin False 30, Mean = Fin False 20,
        StdDev = Fin False 100\<rparr>
   \<and> feed [Fin False 10, Fin False 20, Fin False 30, Fin False 40]
     = \<lparr>Count = 4, Min_val = Fin False 10, Max_val = Fin False 40, Mean = Fin False 25,
        StdDev = Fin False (4691249611844267 / 35184372088832)\<rparr>
   \<and> valof (StdDev (feed [Fin False 10, Fin False 20, Fin False 30, Fin False 40])) < 134
   \<and> sample_variance [10, 20, 30, 40] = 500 / 3
   \<and> 166 < sample_variance [10, 20, 30, 40]"
  by (simp add: feed_three feed_four variance_four)

section \<open>Properties of the automatic configuration\<close>

lemma testDevice_same_probe:
  assumes "arch e' = arch e" and "probe e' port baudRate slaveID = probe e port baudRate slaveID"
  shows "testDevice e' port baudRate slaveID config = testDevice e port baudRate slaveID config"
  by (simp only: testDevice_def assms)

lemma scanPortWithBaudRate_cap_1:
  assumes "MaxDevices config = 1" and "SlaveIDs config = slaveID # rest"
  shows "scanPortWithBaudRate e port baudRate config
           = (case testDevice e port baudRate slaveID config of
                None \<Rightarrow> None
              | Some device \<Rightarrow>
                  if Responsive device \<and> verbose e \<and> LastReading device = None then None
                  else Some [device])"
  using assms by (simp add: scanPortWithBaudRate_def Let_def split: option.split)

lemma scanPort_quick_cap_1:
  "scanPort e port (GetQuickScanConfig\<lparr>MaxDevices := 1\<rparr>)
     = (case testDevice e port 9600 0x16 (GetQuickScanConfig\<lparr>MaxDevices := 1\<rparr>) of
          None \<Rightarrow> None
        | Some device \<Rightarrow>
            if Responsive device \<and> verbose e \<and> LastReading device = None then None
            else Some [device])"
proof -
  have m: "MaxDevices (GetQuickScanConfig\<lparr>MaxDevices := 1\<rparr>) = 1" by simp
  have s: "SlaveIDs (GetQuickScanConfig\<lparr>MaxDevices := 1\<rparr>) = 0x16 # [0x01, 0x02, 0x03, 0x04, 0x05]"
    by (simp add: GetQuickScanConfig_def)
  have b: "BaudRates (GetQuickScanConfig\<lparr>MaxDevices := 1\<rparr>) = [9600]"
    by (simp add: GetQuickScanConfig_def)
  show ?thesis
    unfolding scanPort_def b
    by (simp add: scanPortWithBaudRate_cap_1 [OF m s] hasResponsiveDevice_def Let_def
        split: option.split)
qed

lemma scanPort_same_probe:
  assumes "arch e' = arch e" and "verbose e' = verbose e"
    and "probe e' port 9600 0x16 = probe e port 9600 0x16"
  shows "scanPort e' port (GetQuickScanConfig\<lparr>MaxDevices := 1\<rparr>)
           = scanPort e port (GetQuickScanConfig\<lparr>MaxDevices := 1\<rparr>)"
  by (simp only: scanPort_quick_cap_1 testDevice_same_probe [OF assms(1,3)] assms(2))

lemma scanSerialPorts_same_probe:
  assumes "arch e' = arch e" and "verbose e' = verbose e"
    and "\<forall>port. probe e' port 9600 0x16 = probe e port 9600 0x16"
  shows "scanSerialPorts e' (GetQuickScanConfig\<lparr>MaxDevices := 1\<rparr>) ports result
           = scanSerialPorts e (GetQuickScanConfig\<lparr>MaxDevices := 1\<rparr>) ports result"
proof (induction ports arbitrary: result)
  case Nil
  show ?case by simp
next
  case (Cons port rest)
  have "scanPort e' port (GetQuickScanConfig\<lparr>MaxDevices := 1\<rparr>)
          = scanPort e port (GetQuickScanConfig\<lparr>MaxDevices := 1\<rparr>)"
    using assms by (intro scanPort_same_probe) simp_all
  with Cons.IH show ?case by (simp add: Let_def split: option.split)
qed

lemma usb0_is_likely: "isLikelyRS485Port ''/dev/ttyUSB0''"
  by code_simp

lemma detect_usb0:
  "GetPortsList e = Some [''/dev/ttyUSB0''] \<Longrightarrow> detectSerialPorts e = Some [''/dev/ttyUSB0'']"
  by (simp add: detectSerialPorts_def usb0_is_likely)

lemma AutoConfigure_silent: "AutoConfigure silent_env = Inl NoResponsiveDevice"
proof -
  have g: "GetPortsList silent_env = Some [''/dev/ttyUSB0'']" by (simp add: silent_env_def)
  have t: "testDevice silent_env ''/dev/ttyUSB0'' 9600 0x16 (GetQuickScanConfig\<lparr>MaxDevices := 1\<rparr>)
             = Some \<lparr>DI_Device = ''/dev/ttyUSB0'', DI_SlaveID = 0x16, Responsive = False,
                     DataFormat = 0, LastReading = None, Properties = [],
                     DI_Error = ReadErr ''timeout''\<rparr>"
    by (simp add: testDevice_def silent_env_def)
  have p: "scanPort silent_env ''/dev/ttyUSB0'' (GetQuickScanConfig\<lparr>MaxDevices := 1\<rparr>)
             = Some [\<lparr>DI_Device = ''/dev/ttyUSB0'', DI_SlaveID = 0x16, Responsive = False,
                   DataFormat = 0, LastReading = None, Properties = [],
                   DI_Error = ReadErr ''timeout''\<rparr>]"
    by (simp add: scanPort_quick_cap_1 t)
  have c: "SerialPorts (GetQuickScanConfig\<lparr>MaxDevices := 1\<rparr>) = []"
      "SkipUnresponsive (GetQuickScanConfig\<lparr>MaxDevices := 1\<rparr>)"
      "MaxDevices (GetQuickScanConfig\<lparr>MaxDevices := 1\<rparr>) = 1"
    by (simp_all add: GetQuickScanConfig_def)
  have "ScanDevices silent_env (GetQuickScanConfig\<lparr>MaxDevices := 1\<rparr>)
          = Inr \<lparr>Devices = [], TotalTested = 1, Successful = 0,
                 SR_Config = GetQuickScanConfig\<lparr>MaxDevices := 1\<rparr>\<rparr>"
    by (simp add: ScanDevices_def detect_usb0 [OF g] p c Let_def)
  then show ?thesis
    by (simp add: AutoConfigure_def getResponsiveDevices_def Let_def)
qed

text \<open>
  Claim C9 does not hold of the code. \<open>AutoConfigure\<close> scans with \<open>MaxDevices = 1\<close>, and
  \<open>scanPortWithBaudRate\<close> counts every probed device against this cap, responsive or not:
  the loop over the station numbers breaks after the first one, 0x16. So the result of
  \<open>AutoConfigure\<close> depends on the probes of station 0x16 at 9600 baud only: two hosts
  that agree on these, on the list of ports, on the architecture and on the \<open>verbose\<close> flag
  get the same result, whatever the other stations of the quick-scan set answer. A host on
  which only station 1 answers gets the error that no device responds.
\<close>

theorem AutoConfigure_probes_station_0x16_only:
  assumes "arch e' = arch e" and "verbose e' = verbose e"
    and "GetPortsList e' = GetPortsList e"
    and "\<forall>port. probe e' port 9600 0x16 = probe e port 9600 0x16"
  shows "AutoConfigure e' = AutoConfigure e"
proof -
  have d: "detectSerialPorts e' = detectSerialPorts e"
    using assms(3) by (simp add: detectSerialPorts_def)
  have "ScanDevices e' (GetQuickScanConfig\<lparr>MaxDevices := 1\<rparr>)
          = ScanDevices e (GetQuickScanConfig\<lparr>MaxDevices := 1\<rparr>)"
    by (simp only: ScanDevices_def Let_def d scanSerialPorts_same_probe [OF assms(1,2,4)])
  then show ?thesis by (simp add: AutoConfigure_def)
qed

theorem AutoConfigure_probes_station_0x16_only_witness:
  "arch only_station_1_env = arch silent_env \<and> verbose only_station_1_env = verbose silent_env
   \<and> GetPortsList only_station_1_env = GetPortsList silent_env
   \<and> (\<forall>port. probe only_station_1_env port 9600 0x16 = probe silent_env port 9600 0x16)
   \<and> probe only_station_1_env ''/dev/ttyUSB0'' 9600 0x01 = Results [0x00, 0x00, 0x04, 0xE5]
   \<and> AutoConfigure only_station_1_env = Inl NoResponsiveDevice"
  using AutoConfigure_probes_station_0x16_only [of only_station_1_env silent_env]
    AutoConfigure_silent
  by (simp add: only_station_1_env_def silent_env_def)

end
